theory Spec2Isabelle
  imports Main
begin

section \<open>Vend-O-Matic: the shared machine state\<close>

text \<open>
  \<^verbatim>\<open>app.py\<close> keeps one module-level dictionary \<^verbatim>\<open>_state\<close> with the keys
  \<^verbatim>\<open>"coins"\<close> and \<^verbatim>\<open>"inventory"\<close>. Both hold Python integers, which are unbounded, hence
  \<open>int\<close>. Every handler touches the dictionary inside \<^verbatim>\<open>with _lock\<close>, so a handler is one
  atomic step from a state to a state, and the model passes the state explicitly.
\<close>

record state =
  coins :: int
  inventory :: "int list"

definition initial_state :: state where
  "initial_state = \<lparr>coins = 0, inventory = [5, 5, 5]\<rparr>"

definition ITEM_PRICE :: int where
  "ITEM_PRICE = 2"

subsection \<open>Python values and exceptions\<close>

text \<open>
  A Python float is an IEEE double: a sign, a significand and a binary exponent, or an
  infinity, or a NaN. \<open>Finite neg m e\<close> stands for the number \<open>m * 2 ^ e\<close>, negated when
  \<open>neg\<close> holds; negative zero is \<open>Finite True 0 e\<close>. The type does not bound \<open>m\<close> and \<open>e\<close>,
  so it has every double and more.
\<close>

datatype pyfloat = Finite bool nat int | Infinite bool | NaN

text \<open>
  The values \<^verbatim>\<open>json.loads\<close> can hand to the handler, and the values the handler passes to
  \<^verbatim>\<open>json.dumps\<close>. Python's \<^verbatim>\<open>None\<close> is \<open>JNull\<close>. A dictionary is the list of its
  items. A number token without fraction and exponent decodes to an integer, every other
  number token and the constants \<^verbatim>\<open>NaN\<close>, \<^verbatim>\<open>Infinity\<close> and \<^verbatim>\<open>-Infinity\<close> to a float.
\<close>

datatype json =
    JNull
  | JBool bool
  | JInt int
  | JFloat pyfloat
  | JStr string
  | JArr "json list"
  | JObj "(string \<times> json) list"

datatype exn =
    ValueError
  | AttributeError
  | IndexError
  | JSONDecodeError
  | TypeError
  | UnicodeDecodeError
  | RecursionError
  | OverflowError
  | MemoryError

subsection \<open>\<^verbatim>\<open>str\<close> on integers\<close>

text \<open>
  The decimal numeral of an integer, with a minus sign for a negative one. (An interpreter
  configured with a limit on the number of digits raises beyond that limit, 4300 digits by
  default; balances and stock of that size are not considered.)
\<close>

definition digit :: "nat \<Rightarrow> char" where
  "digit d = ''0123456789'' ! d"

fun digits :: "nat \<Rightarrow> string" where
  "digits n = (if n < 10 then [digit n] else digits (n div 10) @ [digit (n mod 10)])"

declare digits.simps [simp del]

definition str :: "int \<Rightarrow> string" where
  "str i = (if i < 0 then CHR ''-'' # digits (nat (- i)) else digits (nat i))"

subsection \<open>Responses\<close>

text \<open>
  The three response helpers fix the status line, the headers and the body. The model
  records the status code, the headers the handler passes in, and the value that is
  serialised as the body (\<open>None\<close> when no body is written). \<^verbatim>\<open>_send_json\<close> also emits
  \<^verbatim>\<open>Content-Type\<close> and \<^verbatim>\<open>Content-Length\<close>, which depend only on the serialised body
  and are not listed.
\<close>

type_synonym headers = "(string \<times> string) list"

record response =
  status :: nat
  hdrs :: headers
  payload :: "json option"

definition send_no_content :: "headers \<Rightarrow> response" where
  "send_no_content h = \<lparr>status = 204, hdrs = h, payload = None\<rparr>"

definition send_json :: "nat \<Rightarrow> json \<Rightarrow> headers \<Rightarrow> response" where
  "send_json code b h = \<lparr>status = code, hdrs = h, payload = Some b\<rparr>"

definition send_error_plain :: "nat \<Rightarrow> headers \<Rightarrow> response" where
  "send_error_plain code h = \<lparr>status = code, hdrs = h, payload = None\<rparr>"

text \<open>
  A handler either sends a response or leaves through an exception that nothing in
  \<^verbatim>\<open>app.py\<close> catches. There is one more way for \<^verbatim>\<open>_handle_root_put\<close>: \<open>Float_sum c f\<close>
  says that the handler went on to add the float \<open>f\<close> to the integer balance \<open>c\<close>. Python
  evaluates that sum in floating point: converting \<open>c\<close> raises \<^verbatim>\<open>OverflowError\<close> when \<open>c\<close> is
  beyond the doubles, and otherwise the balance becomes a float, which the handler reports
  in \<^verbatim>\<open>X-Coins\<close> with status 204. Rounding and the printing of floats are not defined here,
  and a balance that is a float is not a \<open>state\<close>; the state paired with \<open>Float_sum\<close> is the
  one before the request, and nothing is said about the machine after it.
\<close>

datatype outcome = Replied response | Raised exn | Float_sum int pyfloat

subsection \<open>List subscripts\<close>

text \<open>
  \<^verbatim>\<open>xs[i]\<close> in Python: a negative subscript counts from the end, and a subscript outside
  \<open>[-len, len)\<close> raises \<^verbatim>\<open>IndexError\<close>. \<open>subscript\<close> gives the position that is read or
  written, \<open>None\<close> standing for the exception.
\<close>

definition subscript :: "'a list \<Rightarrow> int \<Rightarrow> nat option" where
  "subscript xs i =
     (if 0 \<le> i \<and> i < int (length xs) then Some (nat i)
      else if i < 0 \<and> - int (length xs) \<le> i then Some (nat (int (length xs) + i))
      else None)"

section \<open>Route handlers\<close>

text \<open>
  \<^verbatim>\<open>_handle_item_put\<close>, lines 138 to 172. The whole body up to the final
  \<^verbatim>\<open>_send_json\<close> runs under the lock.
\<close>

definition handle_item_put :: "int \<Rightarrow> state \<Rightarrow> outcome \<times> state" where
  "handle_item_put item_id s =
     (case subscript (inventory s) item_id of
        None \<Rightarrow> (Raised IndexError, s)
      | Some k \<Rightarrow>
          (let qty = inventory s ! k; c = coins s in
           if qty = 0 then
             (Replied (send_error_plain 404 [(''X-Coins'', str c)]), s)
           else if c < ITEM_PRICE then
             (Replied (send_error_plain 403 [(''X-Coins'', str c)]), s)
           else
             (let s1 = s\<lparr>inventory := (inventory s)[k := inventory s ! k - 1]\<rparr>;
                  s2 = s1\<lparr>coins := coins s1 - ITEM_PRICE\<rparr>;
                  new_qty = inventory s2 ! k;
                  change = coins s2
              in (Replied (send_json 200 (JObj [(''quantity'', JInt 1)])
                     [(''X-Coins'', str change), (''X-Inventory-Remaining'', str new_qty)]),
                  s2))))"

text \<open>
  \<^verbatim>\<open>_handle_root_delete\<close>, lines 119 to 124.
\<close>

definition handle_root_delete :: "state \<Rightarrow> outcome \<times> state" where
  "handle_root_delete s =
     (let returned = coins s; s1 = s\<lparr>coins := 0\<rparr>
      in (Replied (send_no_content [(''X-Coins'', str returned)]), s1))"

text \<open>
  \<^verbatim>\<open>_handle_inventory_get\<close>, lines 126 to 130, and \<^verbatim>\<open>_handle_item_get\<close>, lines 132 to 136.
\<close>

definition handle_inventory_get :: "state \<Rightarrow> outcome \<times> state" where
  "handle_inventory_get s =
     (let snapshot = inventory s
      in (Replied (send_json 200 (JArr (map JInt snapshot)) []), s))"

definition handle_item_get :: "int \<Rightarrow> state \<Rightarrow> outcome \<times> state" where
  "handle_item_get item_id s =
     (case subscript (inventory s) item_id of
        None \<Rightarrow> (Raised IndexError, s)
      | Some k \<Rightarrow> (Replied (send_json 200 (JInt (inventory s ! k)) []), s))"

subsection \<open>Reading the request body\<close>

text \<open>
  What a handler reads of a request besides the path: the value of the
  \<^verbatim>\<open>Content-Length\<close> header when there is one, and the stream \<^verbatim>\<open>rfile\<close>. The stream is
  an object of the library (a buffered reader on the socket); the handler only calls its
  method \<^verbatim>\<open>read\<close> once, so the field holds that method: \<open>rfile req n\<close> is what
  \<^verbatim>\<open>self.rfile.read(n)\<close> returns, or the exception it raises.
\<close>

record request =
  content_length :: "string option"
  rfile :: "int \<Rightarrow> exn + string"

text \<open>
  Two more library functions are called on data of the request: the builtin \<^verbatim>\<open>int\<close> on
  a string, and \<^verbatim>\<open>json.loads\<close> on bytes. Neither is code of the application, so the
  handlers take them as parameters: \<open>py_int\<close> answers \<open>None\<close> where \<^verbatim>\<open>int\<close> raises
  \<^verbatim>\<open>ValueError\<close>, and \<open>loads\<close> answers \<open>Inl e\<close> where \<^verbatim>\<open>json.loads\<close> raises \<open>e\<close>. The
  general theorems hold for every choice of the two and for every stream.
\<close>

text \<open>
  \<^verbatim>\<open>_read_json_body\<close>, lines 206 to 218. Without the header, \<^verbatim>\<open>headers.get\<close> gives the
  integer 0, on which \<^verbatim>\<open>int\<close> is the identity. The call of \<^verbatim>\<open>read\<close> stands outside the
  \<^verbatim>\<open>try\<close>, and inside it only \<^verbatim>\<open>JSONDecodeError\<close> is caught. The \<^verbatim>\<open>None\<close> returned on a
  parse error is \<open>JNull\<close>, the value \<^verbatim>\<open>json.loads\<close> itself returns for the body \<^verbatim>\<open>null\<close>.
\<close>

definition read_json_body ::
  "(string \<Rightarrow> int option) \<Rightarrow> (string \<Rightarrow> exn + json) \<Rightarrow> request \<Rightarrow> exn + json" where
  "read_json_body py_int loads req =
     (case (case content_length req of None \<Rightarrow> Some 0 | Some v \<Rightarrow> py_int v) of
        None \<Rightarrow> Inl ValueError
      | Some len \<Rightarrow>
          if len = 0 then Inr (JObj [])
          else
            (case rfile req len of
               Inl e \<Rightarrow> Inl e
             | Inr raw \<Rightarrow>
                 (case loads raw of
                    Inl e \<Rightarrow> if e = JSONDecodeError then Inr JNull else Inl e
                  | Inr v \<Rightarrow> Inr v)))"

subsection \<open>Inserting a coin\<close>

text \<open>
  \<^verbatim>\<open>body.get("coin", 0)\<close>: only a dictionary has the method \<^verbatim>\<open>get\<close>; on a list, a number
  of either kind, a string or a boolean the attribute lookup raises \<^verbatim>\<open>AttributeError\<close>. The keys of a
  decoded dictionary are distinct, so the first item with the key is the only one.
\<close>

fun py_get :: "json \<Rightarrow> string \<Rightarrow> json \<Rightarrow> exn + json" where
  "py_get (JObj items) k dflt = Inr (case map_of items k of None \<Rightarrow> dflt | Some v \<Rightarrow> v)"
| "py_get _ k dflt = Inl AttributeError"

text \<open>
  \<^verbatim>\<open>f == n\<close> for a float \<open>f\<close> and an integer \<open>n\<close>. Python compares the two numbers exactly,
  without rounding \<open>n\<close>: both zeros equal 0, and an infinity or a NaN equals no integer.
\<close>

fun float_eq_int :: "pyfloat \<Rightarrow> int \<Rightarrow> bool" where
  "float_eq_int (Finite neg m e) n =
     (let v = (if neg then - int m else int m)
      in if 0 \<le> e then v * 2 ^ nat e = n else v = n * 2 ^ nat (- e))"
| "float_eq_int (Infinite neg) n = False"
| "float_eq_int NaN n = False"

text \<open>
  \<^verbatim>\<open>v == n\<close> for an integer \<open>n\<close>, as the membership test \<^verbatim>\<open>coin not in (0, 1)\<close> evaluates
  it: \<^verbatim>\<open>bool\<close> is a subclass of \<^verbatim>\<open>int\<close> with \<^verbatim>\<open>True == 1\<close> and \<^verbatim>\<open>False == 0\<close>; a
  float is compared by value, so \<^verbatim>\<open>1.0 == 1\<close>; a string, \<^verbatim>\<open>None\<close>, a list and a dictionary
  never equal an integer.
\<close>

fun py_eq_int :: "json \<Rightarrow> int \<Rightarrow> bool" where
  "py_eq_int (JInt m) n = (m = n)"
| "py_eq_int (JBool b) n = ((if b then 1 else 0) = n)"
| "py_eq_int (JFloat f) n = float_eq_int f n"
| "py_eq_int _ n = False"

text \<open>
  \<^verbatim>\<open>c + v\<close> for an integer \<open>c\<close>. With an integer or a boolean the sum is an integer. With a
  float it is the floating-point sum, which is left as the pair of its operands. The
  other operand types raise \<^verbatim>\<open>TypeError\<close>.
\<close>

datatype total = Int_total int | Float_total int pyfloat

fun py_add_int :: "int \<Rightarrow> json \<Rightarrow> exn + total" where
  "py_add_int c (JInt m) = Inr (Int_total (c + m))"
| "py_add_int c (JBool b) = Inr (Int_total (c + (if b then 1 else 0)))"
| "py_add_int c (JFloat f) = Inr (Float_total c f)"
| "py_add_int c _ = Inl TypeError"

text \<open>
  The critical section of \<^verbatim>\<open>_handle_root_put\<close>, lines 112 to 114: the balance is raised
  and read back under the lock. \<open>Inserted t s1\<close> is the new total with the new state;
  \<open>Inserted_float c f\<close> is the case of a float coin, where the new balance is the
  floating-point sum of \<open>c\<close> and \<open>f\<close>.
\<close>

datatype insertion = Inserted int state | Inserted_float int pyfloat

definition insert_coin :: "json \<Rightarrow> state \<Rightarrow> exn + insertion" where
  "insert_coin coin s =
     (case py_add_int (coins s) coin of
        Inl e \<Rightarrow> Inl e
      | Inr (Int_total c) \<Rightarrow>
          (let s1 = s\<lparr>coins := c\<rparr>; new_total = coins s1 in Inr (Inserted new_total s1))
      | Inr (Float_total c f) \<Rightarrow> Inr (Inserted_float c f))"

text \<open>
  \<^verbatim>\<open>_handle_root_put\<close>, lines 100 to 117.
\<close>

definition handle_root_put ::
  "(string \<Rightarrow> int option) \<Rightarrow> (string \<Rightarrow> exn + json) \<Rightarrow> request \<Rightarrow> state \<Rightarrow> outcome \<times> state" where
  "handle_root_put py_int loads req s =
     (case read_json_body py_int loads req of
        Inl e \<Rightarrow> (Raised e, s)
      | Inr body \<Rightarrow>
          if body = JNull then (Replied (send_error_plain 400 []), s)
          else
            (case py_get body ''coin'' (JInt 0) of
               Inl e \<Rightarrow> (Raised e, s)
             | Inr coin \<Rightarrow>
                 if \<not> (py_eq_int coin 0 \<or> py_eq_int coin 1) then
                   (Replied (send_error_plain 400 []), s)
                 else
                   (case insert_coin coin s of
                      Inl e \<Rightarrow> (Raised e, s)
                    | Inr (Inserted new_total s1) \<Rightarrow>
                        (Replied (send_no_content [(''X-Coins'', str new_total)]), s1)
                    | Inr (Inserted_float c f) \<Rightarrow> (Float_sum c f, s))))"

section \<open>Path parsing and dispatch\<close>

text \<open>
  The string methods \<^verbatim>\<open>_parse_path\<close> uses. \<^verbatim>\<open>s.split(sep)\<close> with a one-character
  separator cuts at every occurrence and keeps empty pieces, so the result has one more
  element than there are separators and is never empty; \<open>split_from\<close> scans the string
  once, holding the piece read so far in reverse. \<^verbatim>\<open>rstrip\<close> and \<^verbatim>\<open>lstrip\<close> with
  a one-character argument drop every copy of it at that end.
\<close>

fun split_from :: "char \<Rightarrow> string \<Rightarrow> string \<Rightarrow> string list" where
  "split_from sep piece [] = [rev piece]"
| "split_from sep piece (c # cs) =
     (if c = sep then rev piece # split_from sep [] cs
      else split_from sep (c # piece) cs)"

definition split :: "char \<Rightarrow> string \<Rightarrow> string list" where
  "split sep s = split_from sep [] s"

definition lstrip :: "char \<Rightarrow> string \<Rightarrow> string" where
  "lstrip c s = dropWhile (\<lambda>x. x = c) s"

definition rstrip :: "char \<Rightarrow> string \<Rightarrow> string" where
  "rstrip c s = rev (dropWhile (\<lambda>x. x = c) (rev s))"

text \<open>
  Line 75: \<^verbatim>\<open>raw = self.path.split("?")[0].rstrip("/") or "/"\<close>.
\<close>

definition raw_path :: "string \<Rightarrow> string" where
  "raw_path path =
     (let r = rstrip CHR ''/'' (hd (split CHR ''?'' path))
      in if r = [] then ''/'' else r)"

text \<open>
  \<^verbatim>\<open>_parse_path\<close>, lines 66 to 94. \<open>Inl r\<close> is the case where the response \<open>r\<close> has been
  sent and \<^verbatim>\<open>(None, None)\<close> is returned; \<open>Inr\<close> carries the segments and the item id.
\<close>

definition parse_path ::
  "(string \<Rightarrow> int option) \<Rightarrow> string \<Rightarrow> state \<Rightarrow> response + (string list \<times> int option)" where
  "parse_path py_int path s =
     (let raw = raw_path path in
      if raw = ''/'' then Inr ([[]], None)
      else
        (let parts = split CHR ''/'' (lstrip CHR ''/'' raw) in
         if length parts = 2 \<and> parts ! 0 = ''inventory'' then
           (case py_int (parts ! 1) of
              None \<Rightarrow> Inl (send_error_plain 404 [])
            | Some item_id \<Rightarrow>
                if item_id < 0 \<or> int (length (inventory s)) \<le> item_id then
                  Inl (send_error_plain 404 [])
                else Inr (parts, Some item_id))
         else Inr (parts, None)))"

text \<open>
  \<^verbatim>\<open>do_GET\<close>, \<^verbatim>\<open>do_PUT\<close> and \<^verbatim>\<open>do_DELETE\<close>, lines 31 to 60.
\<close>

definition do_GET :: "(string \<Rightarrow> int option) \<Rightarrow> string \<Rightarrow> state \<Rightarrow> outcome \<times> state" where
  "do_GET py_int path s =
     (case parse_path py_int path s of
        Inl r \<Rightarrow> (Replied r, s)
      | Inr (segments, item_id) \<Rightarrow>
          if segments = [''inventory''] then handle_inventory_get s
          else if length segments = 2 \<and> segments ! 0 = ''inventory'' \<and> item_id \<noteq> None then
            handle_item_get (the item_id) s
          else (Replied (send_error_plain 404 []), s))"

definition do_PUT ::
  "(string \<Rightarrow> int option) \<Rightarrow> (string \<Rightarrow> exn + json) \<Rightarrow> string \<Rightarrow> request \<Rightarrow> state
     \<Rightarrow> outcome \<times> state" where
  "do_PUT py_int loads path req s =
     (case parse_path py_int path s of
        Inl r \<Rightarrow> (Replied r, s)
      | Inr (segments, item_id) \<Rightarrow>
          if segments = [[]] then handle_root_put py_int loads req s
          else if length segments = 2 \<and> segments ! 0 = ''inventory'' \<and> item_id \<noteq> None then
            handle_item_put (the item_id) s
          else (Replied (send_error_plain 404 []), s))"

definition do_DELETE :: "(string \<Rightarrow> int option) \<Rightarrow> string \<Rightarrow> state \<Rightarrow> outcome \<times> state" where
  "do_DELETE py_int path s =
     (case parse_path py_int path s of
        Inl r \<Rightarrow> (Replied r, s)
      | Inr (segments, item_id) \<Rightarrow>
          if segments = [[]] then handle_root_delete s
          else (Replied (send_error_plain 404 []), s))"

section \<open>Sequences of operations\<close>

text \<open>
  The five operations on the machine, each standing for the critical section of its
  handler: \<open>InsertCoin\<close> for \<open>insert_coin\<close> on an integer amount, \<open>CancelTransaction\<close> for
  \<open>handle_root_delete\<close>, \<open>GetInventorySnapshot\<close> for \<open>handle_inventory_get\<close>,
  \<open>GetItemQuantity\<close> for \<open>handle_item_get\<close> and \<open>PurchaseItem\<close> for \<open>handle_item_put\<close>.
  An operation that raises leaves the state as it was; \<open>InsertCoin\<close> carries an integer, so
  the float case of \<open>insert_coin\<close> does not occur.
\<close>

datatype operation =
    InsertCoin int
  | CancelTransaction
  | GetInventorySnapshot
  | GetItemQuantity int
  | PurchaseItem int

fun apply_operation :: "operation \<Rightarrow> state \<Rightarrow> state" where
  "apply_operation (InsertCoin amount) s =
     (case insert_coin (JInt amount) s of
        Inl e \<Rightarrow> s
      | Inr (Inserted t s1) \<Rightarrow> s1
      | Inr (Inserted_float c f) \<Rightarrow> s)"
| "apply_operation CancelTransaction s = snd (handle_root_delete s)"
| "apply_operation GetInventorySnapshot s = snd (handle_inventory_get s)"
| "apply_operation (GetItemQuantity item_id) s = snd (handle_item_get item_id s)"
| "apply_operation (PurchaseItem item_id) s = snd (handle_item_put item_id s)"

fun run :: "operation list \<Rightarrow> state \<Rightarrow> state" where
  "run [] s = s"
| "run (x # xs) s = run xs (apply_operation x s)"

text \<open>The amounts \<open>InsertCoin\<close> is called with: one coin at most.\<close>

fun accepted :: "operation \<Rightarrow> bool" where
  "accepted (InsertCoin amount) = (amount = 0 \<or> amount = 1)"
| "accepted x = True"

definition invariant :: "state \<Rightarrow> bool" where
  "invariant s = (0 \<le> coins s \<and> list_all (\<lambda>q. 0 \<le> q) (inventory s))"

section \<open>Library functions on sample inputs\<close>

text \<open>
  To run the handlers on concrete requests the library functions need values.
  \<open>int_decimal\<close> reads an optional sign followed by one or more ASCII digits, on which it
  agrees with \<^verbatim>\<open>int\<close>; every other string is answered with \<open>None\<close>. \<open>loads_sample\<close> lists
  the value of \<^verbatim>\<open>json.loads\<close> on a few byte strings; it answers \<^verbatim>\<open>JSONDecodeError\<close> on the
  malformed sample \<^verbatim>\<open>{\<close> and also on every string not listed, where it says nothing about
  \<^verbatim>\<open>json.loads\<close>. \<open>reader data\<close> is \<^verbatim>\<open>read\<close> on a stream that holds the bytes \<open>data\<close> and then
  ends: it agrees with the library for a length from \<open>-1\<close> up to the length of \<open>data\<close>, and
  with the \<^verbatim>\<open>ValueError\<close> the library raises below \<open>-1\<close>. The examples below stay within
  the strings and lengths described here.
\<close>

definition reader :: "string \<Rightarrow> int \<Rightarrow> exn + string" where
  "reader data n =
     (if n < - 1 then Inl ValueError
      else if n = - 1 then Inr data
      else Inr (take (nat n) data))"

definition is_digit :: "char \<Rightarrow> bool" where
  "is_digit c = (c \<in> set ''0123456789'')"

definition digit_value :: "char \<Rightarrow> nat" where
  "digit_value c = of_char c - 48"

definition decimal_value :: "string \<Rightarrow> nat" where
  "decimal_value ds = foldl (\<lambda>acc c. 10 * acc + digit_value c) 0 ds"

definition int_decimal :: "string \<Rightarrow> int option" where
  "int_decimal v =
     (let neg = (v \<noteq> [] \<and> hd v = CHR ''-'');
          ds = (if v \<noteq> [] \<and> (hd v = CHR ''-'' \<or> hd v = CHR ''+'') then tl v else v)
      in if ds \<noteq> [] \<and> list_all is_digit ds
         then Some (if neg then - int (decimal_value ds) else int (decimal_value ds))
         else None)"

definition loads_sample :: "string \<Rightarrow> exn + json" where
  \<open>loads_sample raw =
     (if raw = ''{}'' then Inr (JObj [])
      else if raw = ''{"coin": 0}'' then Inr (JObj [(''coin'', JInt 0)])
      else if raw = ''{"coin": 1}'' then Inr (JObj [(''coin'', JInt 1)])
      else if raw = ''{"coin": 2}'' then Inr (JObj [(''coin'', JInt 2)])
      else if raw = ''{"coin": "1"}'' then Inr (JObj [(''coin'', JStr ''1'')])
      else if raw = ''{"coin": 0.5}'' then Inr (JObj [(''coin'', JFloat (Finite False 1 (- 1)))])
      else if raw = ''{"coin": 2.0}'' then Inr (JObj [(''coin'', JFloat (Finite False 1 1))])
      else if raw = ''{"coin": 1.0}'' then Inr (JObj [(''coin'', JFloat (Finite False 1 0))])
      else if raw = ''[1]'' then Inr (JArr [JInt 1])
      else if raw = ''7'' then Inr (JInt 7)
      else if raw = ''null'' then Inr JNull
      else Inl JSONDecodeError)\<close>

section \<open>Properties\<close>

subsection \<open>Purchasing an item\<close>

lemma str_zero: "str 0 = ''0''"
  by (simp add: str_def digits.simps digit_def)

lemma subscript_valid:
  "0 \<le> i \<Longrightarrow> i < int (length xs) \<Longrightarrow> subscript xs i = Some (nat i)"
  by (simp add: subscript_def)

text \<open>
  C1. In a state where item \<open>i\<close> is in stock and the balance covers the price, the purchase
  succeeds: the reply is 200 with body \<^verbatim>\<open>{"quantity": 1}\<close>, \<^verbatim>\<open>X-Coins\<close> is the remaining
  balance and \<^verbatim>\<open>X-Inventory-Remaining\<close> the new stock of the item; in the new state the
  balance is lower by exactly the price, entry \<open>i\<close> is lower by exactly one, and no other
  entry has changed.
\<close>

theorem purchase_success:
  assumes "0 \<le> i" and "i < int (length (inventory s))"
    and "0 < inventory s ! nat i" and "ITEM_PRICE \<le> coins s"
  shows "handle_item_put i s =
           (Replied (send_json 200 (JObj [(''quantity'', JInt 1)])
              [(''X-Coins'', str (coins s - ITEM_PRICE)),
               (''X-Inventory-Remaining'', str (inventory s ! nat i - 1))]),
            \<lparr>coins = coins s - ITEM_PRICE,
             inventory = (inventory s)[nat i := inventory s ! nat i - 1]\<rparr>)"
  using assms by (simp add: handle_item_put_def subscript_valid Let_def)

theorem purchase_success_witness:
  "handle_item_put 0 \<lparr>coins = 3, inventory = [5, 5, 5]\<rparr> =
     (Replied (send_json 200 (JObj [(''quantity'', JInt 1)])
        [(''X-Coins'', ''1''), (''X-Inventory-Remaining'', ''4'')]),
      \<lparr>coins = 1, inventory = [4, 5, 5]\<rparr>)"
  using purchase_success [of 0 "\<lparr>coins = 3, inventory = [5, 5, 5]\<rparr>"]
  by (simp add: ITEM_PRICE_def str_def digits.simps digit_def)

text \<open>
  C2. When item \<open>i\<close> has no stock the purchase is answered with 404, whatever the
  balance is, also when the balance is below the price: the stock is tested before the
  funds, and the 403 of insufficient funds is never sent. The state stays as it was.
\<close>

theorem out_of_stock_first:
  assumes "0 \<le> i" and "i < int (length (inventory s))" and "inventory s ! nat i = 0"
  shows "handle_item_put i s =
           (Replied (send_error_plain 404 [(''X-Coins'', str (coins s))]), s)
         \<and> (\<forall>h. fst (handle_item_put i s) \<noteq> Replied (send_error_plain 403 h))"
  using assms by (simp add: handle_item_put_def subscript_valid send_error_plain_def)

theorem out_of_stock_first_witness:
  "handle_item_put 1 \<lparr>coins = 1, inventory = [5, 0, 5]\<rparr> =
     (Replied (send_error_plain 404 [(''X-Coins'', ''1'')]), \<lparr>coins = 1, inventory = [5, 0, 5]\<rparr>)"
  using out_of_stock_first [of 1 "\<lparr>coins = 1, inventory = [5, 0, 5]\<rparr>"]
  by (simp add: str_def digits.simps digit_def)

text \<open>
  C3. A purchase that fails, with 404 because item \<open>i\<close> has no stock or with 403 because
  there is stock but the balance is below the price, returns the state it was given:
  the balance and every inventory entry are as before. The reply has no body, and its
  only header is \<^verbatim>\<open>X-Coins\<close> with that unchanged balance.
\<close>

theorem failed_purchase_keeps_state:
  assumes "0 \<le> i" and "i < int (length (inventory s))"
    and "inventory s ! nat i = 0 \<or> coins s < ITEM_PRICE"
  shows "handle_item_put i s =
           (Replied (send_error_plain (if inventory s ! nat i = 0 then 404 else 403)
              [(''X-Coins'', str (coins s))]), s)"
  using assms by (auto simp add: handle_item_put_def subscript_valid Let_def)

theorem failed_purchase_keeps_state_witness:
  "handle_item_put 2 \<lparr>coins = 7, inventory = [5, 5, 0]\<rparr> =
     (Replied (send_error_plain 404 [(''X-Coins'', ''7'')]), \<lparr>coins = 7, inventory = [5, 5, 0]\<rparr>)
   \<and> handle_item_put 0 \<lparr>coins = 1, inventory = [5, 5, 0]\<rparr> =
     (Replied (send_error_plain 403 [(''X-Coins'', ''1'')]), \<lparr>coins = 1, inventory = [5, 5, 0]\<rparr>)"
  using failed_purchase_keeps_state [of 2 "\<lparr>coins = 7, inventory = [5, 5, 0]\<rparr>"]
    failed_purchase_keeps_state [of 0 "\<lparr>coins = 1, inventory = [5, 5, 0]\<rparr>"]
  by (simp add: ITEM_PRICE_def str_def digits.simps digit_def)

subsection \<open>Cancelling\<close>

text \<open>
  C6. Cancelling answers 204 with \<^verbatim>\<open>X-Coins\<close> set to the balance held before the call,
  sets the balance to 0 and leaves the inventory alone. With an empty balance it
  reports 0 and the state is unchanged, so the second of two cancellations in a row
  reports 0 and changes nothing.
\<close>

theorem cancel_returns_balance:
  "handle_root_delete s =
     (Replied (send_no_content [(''X-Coins'', str (coins s))]),
      \<lparr>coins = 0, inventory = inventory s\<rparr>)
   \<and> (coins s = 0 \<longrightarrow>
        handle_root_delete s = (Replied (send_no_content [(''X-Coins'', ''0'')]), s))
   \<and> handle_root_delete (snd (handle_root_delete s)) =
       (Replied (send_no_content [(''X-Coins'', ''0'')]), snd (handle_root_delete s))"
  by (simp add: handle_root_delete_def str_zero)

theorem cancel_returns_balance_witness:
  "handle_root_delete \<lparr>coins = 2, inventory = [5, 4, 5]\<rparr> =
     (Replied (send_no_content [(''X-Coins'', ''2'')]), \<lparr>coins = 0, inventory = [5, 4, 5]\<rparr>)
   \<and> handle_root_delete \<lparr>coins = 0, inventory = [5, 4, 5]\<rparr> =
     (Replied (send_no_content [(''X-Coins'', ''0'')]), \<lparr>coins = 0, inventory = [5, 4, 5]\<rparr>)"
  using cancel_returns_balance [of "\<lparr>coins = 2, inventory = [5, 4, 5]\<rparr>"]
    cancel_returns_balance [of "\<lparr>coins = 0, inventory = [5, 4, 5]\<rparr>"]
  by (simp add: str_def digits.simps digit_def)

subsection \<open>Inserting a coin through \<^verbatim>\<open>PUT /\<close>\<close>

lemma root_put_dict:
  assumes "read_json_body py_int loads req = Inr (JObj items)"
  shows "handle_root_put py_int loads req s =
     (let coin = (case map_of items ''coin'' of None \<Rightarrow> JInt 0 | Some v \<Rightarrow> v) in
      if \<not> (py_eq_int coin 0 \<or> py_eq_int coin 1) then (Replied (send_error_plain 400 []), s)
      else (case insert_coin coin s of
              Inl e \<Rightarrow> (Raised e, s)
            | Inr (Inserted new_total s1) \<Rightarrow>
                (Replied (send_no_content [(''X-Coins'', str new_total)]), s1)
            | Inr (Inserted_float c f) \<Rightarrow> (Float_sum c f, s)))"
  using assms by (simp add: handle_root_put_def Let_def)

text \<open>
  C5. A \<^verbatim>\<open>PUT /\<close> whose body is an object with \<^verbatim>\<open>coin\<close> equal to the integer 0 or 1
  raises the balance by exactly that amount, leaves the inventory alone, and answers 204
  with \<^verbatim>\<open>X-Coins\<close> set to the balance right after the increment. With amount 0 the
  state is unchanged and the unchanged balance is reported.
\<close>

theorem insert_coin_adds_amount:
  assumes "read_json_body py_int loads req = Inr (JObj items)"
    and "map_of items ''coin'' = Some (JInt amount)"
    and "amount = 0 \<or> amount = 1"
  shows "handle_root_put py_int loads req s =
           (Replied (send_no_content [(''X-Coins'', str (coins s + amount))]),
            \<lparr>coins = coins s + amount, inventory = inventory s\<rparr>)
         \<and> (amount = 0 \<longrightarrow>
              handle_root_put py_int loads req s =
                (Replied (send_no_content [(''X-Coins'', str (coins s))]), s))"
  using assms by (auto simp add: root_put_dict insert_coin_def Let_def)

theorem insert_coin_adds_amount_witness:
  "handle_root_put int_decimal loads_sample
       \<lparr>content_length = Some ''11'', rfile = reader ''{\"coin\": 1}''\<rparr> \<lparr>coins = 1, inventory = [5, 5, 5]\<rparr> =
     (Replied (send_no_content [(''X-Coins'', ''2'')]), \<lparr>coins = 2, inventory = [5, 5, 5]\<rparr>)
   \<and> handle_root_put int_decimal loads_sample
       \<lparr>content_length = Some ''11'', rfile = reader ''{\"coin\": 0}''\<rparr> \<lparr>coins = 1, inventory = [5, 5, 5]\<rparr> =
     (Replied (send_no_content [(''X-Coins'', ''1'')]), \<lparr>coins = 1, inventory = [5, 5, 5]\<rparr>)"
  using insert_coin_adds_amount [of int_decimal loads_sample
      "\<lparr>content_length = Some ''11'', rfile = reader ''{\"coin\": 1}''\<rparr>" "[(''coin'', JInt 1)]" 1
      "\<lparr>coins = 1, inventory = [5, 5, 5]\<rparr>"]
    insert_coin_adds_amount [of int_decimal loads_sample
      "\<lparr>content_length = Some ''11'', rfile = reader ''{\"coin\": 0}''\<rparr>" "[(''coin'', JInt 0)]" 0
      "\<lparr>coins = 1, inventory = [5, 5, 5]\<rparr>"]
  by (simp add: read_json_body_def int_decimal_def is_digit_def decimal_value_def digit_value_def
      reader_def loads_sample_def str_def digits.simps digit_def)

lemmas sample_defs = read_json_body_def int_decimal_def is_digit_def decimal_value_def
  digit_value_def reader_def loads_sample_def

text \<open>
  C7 as stated does not hold: the body \<^verbatim>\<open>{}\<close> has no \<^verbatim>\<open>coin\<close> field, and the request is
  answered with 204 and the current balance, not with 400.
\<close>

theorem absent_coin_counterexample:
  "handle_root_put int_decimal loads_sample \<lparr>content_length = Some ''2'', rfile = reader ''{}''\<rparr>
       \<lparr>coins = 1, inventory = [5, 5, 5]\<rparr> =
     (Replied (send_no_content [(''X-Coins'', ''1'')]), \<lparr>coins = 1, inventory = [5, 5, 5]\<rparr>)
   \<and> status (send_no_content [(''X-Coins'', ''1'')]) \<noteq> 400"
  by (simp add: handle_root_put_def sample_defs insert_coin_def str_def digits.simps digit_def
      send_no_content_def)

text \<open>
  A finite float equals 0 exactly when its significand is 0, whatever the sign. Some
  values of the comparison: \<^verbatim>\<open>1.0 == 1\<close>, \<^verbatim>\<open>-0.0 == 0\<close>, and neither \<^verbatim>\<open>0.5\<close> nor \<^verbatim>\<open>2.0\<close>
  equals 0 or 1.
\<close>

lemma float_eq_zero: "float_eq_int (Finite neg m e) 0 = (m = 0)"
  by (simp add: Let_def)

lemma float_eq_examples:
  "float_eq_int (Finite False 1 0) 1"
  "float_eq_int (Finite True 0 0) 0"
  "\<not> float_eq_int (Finite False 1 (- 1)) 0" "\<not> float_eq_int (Finite False 1 (- 1)) 1"
  "\<not> float_eq_int (Finite False 1 1) 0" "\<not> float_eq_int (Finite False 1 1) 1"
  by simp_all

text \<open>
  C7, amended. For a \<^verbatim>\<open>PUT /\<close> whose body decodes to an object: when the \<^verbatim>\<open>coin\<close>
  field is present and its value is a number other than 0 and 1 (an integer, or a float
  that equals neither 0 nor 1, the infinities and NaN among them), a string, \<^verbatim>\<open>null\<close>, an
  array or an object, the request is answered with 400, without body or headers, and the
  state is unchanged; when the field is absent it counts as 0, and the request is answered
  with 204 and \<^verbatim>\<open>X-Coins\<close> set to the unchanged balance.
\<close>

theorem coin_field_validation:
  assumes "read_json_body py_int loads req = Inr (JObj items)"
  shows "(\<forall>v. map_of items ''coin'' = Some v \<and> (\<forall>b. v \<noteq> JBool b) \<and> v \<noteq> JInt 0 \<and> v \<noteq> JInt 1
              \<and> (\<forall>f. v = JFloat f \<longrightarrow> \<not> float_eq_int f 0 \<and> \<not> float_eq_int f 1)
            \<longrightarrow> handle_root_put py_int loads req s = (Replied (send_error_plain 400 []), s))
         \<and> (map_of items ''coin'' = None
            \<longrightarrow> handle_root_put py_int loads req s =
                  (Replied (send_no_content [(''X-Coins'', str (coins s))]), s))"
proof (intro conjI allI impI)
  fix v
  assume h: "map_of items ''coin'' = Some v \<and> (\<forall>b. v \<noteq> JBool b) \<and> v \<noteq> JInt 0 \<and> v \<noteq> JInt 1
      \<and> (\<forall>f. v = JFloat f \<longrightarrow> \<not> float_eq_int f 0 \<and> \<not> float_eq_int f 1)"
  then have "\<not> (py_eq_int v 0 \<or> py_eq_int v 1)"
    by (cases v) auto
  with h show "handle_root_put py_int loads req s = (Replied (send_error_plain 400 []), s)"
    by (simp add: root_put_dict [OF assms])
next
  assume "map_of items ''coin'' = None"
  then show "handle_root_put py_int loads req s =
      (Replied (send_no_content [(''X-Coins'', str (coins s))]), s)"
    by (simp add: root_put_dict [OF assms] insert_coin_def)
qed

theorem coin_field_validation_witness:
  "handle_root_put int_decimal loads_sample
       \<lparr>content_length = Some ''13'', rfile = reader ''{\"coin\": \"1\"}''\<rparr> \<lparr>coins = 1, inventory = [5, 5, 5]\<rparr> =
     (Replied (send_error_plain 400 []), \<lparr>coins = 1, inventory = [5, 5, 5]\<rparr>)
   \<and> handle_root_put int_decimal loads_sample
       \<lparr>content_length = Some ''11'', rfile = reader ''{\"coin\": 2}''\<rparr> \<lparr>coins = 1, inventory = [5, 5, 5]\<rparr> =
     (Replied (send_error_plain 400 []), \<lparr>coins = 1, inventory = [5, 5, 5]\<rparr>)
   \<and> handle_root_put int_decimal loads_sample
       \<lparr>content_length = Some ''13'', rfile = reader ''{\"coin\": 0.5}''\<rparr> \<lparr>coins = 1, inventory = [5, 5, 5]\<rparr> =
     (Replied (send_error_plain 400 []), \<lparr>coins = 1, inventory = [5, 5, 5]\<rparr>)
   \<and> handle_root_put int_decimal loads_sample
       \<lparr>content_length = Some ''13'', rfile = reader ''{\"coin\": 2.0}''\<rparr> \<lparr>coins = 1, inventory = [5, 5, 5]\<rparr> =
     (Replied (send_error_plain 400 []), \<lparr>coins = 1, inventory = [5, 5, 5]\<rparr>)
   \<and> handle_root_put int_decimal loads_sample
       \<lparr>content_length = Some ''2'', rfile = reader ''{}''\<rparr> \<lparr>coins = 1, inventory = [5, 5, 5]\<rparr> =
     (Replied (send_no_content [(''X-Coins'', ''1'')]), \<lparr>coins = 1, inventory = [5, 5, 5]\<rparr>)"
  using coin_field_validation [of int_decimal loads_sample
      "\<lparr>content_length = Some ''11'', rfile = reader ''{\"coin\": 2}''\<rparr>" "[(''coin'', JInt 2)]"
      "\<lparr>coins = 1, inventory = [5, 5, 5]\<rparr>"]
    coin_field_validation [of int_decimal loads_sample
      "\<lparr>content_length = Some ''13'', rfile = reader ''{\"coin\": \"1\"}''\<rparr>" "[(''coin'', JStr ''1'')]"
      "\<lparr>coins = 1, inventory = [5, 5, 5]\<rparr>"]
    coin_field_validation [of int_decimal loads_sample
      "\<lparr>content_length = Some ''13'', rfile = reader ''{\"coin\": 0.5}''\<rparr>"
      "[(''coin'', JFloat (Finite False 1 (- 1)))]" "\<lparr>coins = 1, inventory = [5, 5, 5]\<rparr>"]
    coin_field_validation [of int_decimal loads_sample
      "\<lparr>content_length = Some ''13'', rfile = reader ''{\"coin\": 2.0}''\<rparr>"
      "[(''coin'', JFloat (Finite False 1 1))]" "\<lparr>coins = 1, inventory = [5, 5, 5]\<rparr>"]
    coin_field_validation [of int_decimal loads_sample
      "\<lparr>content_length = Some ''2'', rfile = reader ''{}''\<rparr>" "[]"
      "\<lparr>coins = 1, inventory = [5, 5, 5]\<rparr>"]
  by (simp add: sample_defs str_def digits.simps digit_def)

text \<open>
  The values that pass the membership test without being the integers 0 and 1 are the
  booleans, which are added as 0 and 1, and the floats equal to 0 or 1. With such a float
  the handler goes on to the floating-point sum; the body \<^verbatim>\<open>{"coin": 1.0}\<close> is an example.
\<close>

lemma float_coin_accepted:
  assumes "read_json_body py_int loads req = Inr (JObj items)"
    and "map_of items ''coin'' = Some (JFloat f)"
    and "float_eq_int f 0 \<or> float_eq_int f 1"
  shows "handle_root_put py_int loads req s = (Float_sum (coins s) f, s)"
  using assms by (auto simp add: root_put_dict insert_coin_def)

lemma float_coin_example:
  "handle_root_put int_decimal loads_sample
       \<lparr>content_length = Some ''13'', rfile = reader ''{\"coin\": 1.0}''\<rparr> \<lparr>coins = 1, inventory = [5, 5, 5]\<rparr> =
     (Float_sum 1 (Finite False 1 0), \<lparr>coins = 1, inventory = [5, 5, 5]\<rparr>)"
  by (simp add: handle_root_put_def sample_defs insert_coin_def)

lemma boolean_coin_accepted:
  assumes "read_json_body py_int loads req = Inr (JObj items)"
    and "map_of items ''coin'' = Some (JBool b)"
  shows "handle_root_put py_int loads req s =
           (Replied (send_no_content [(''X-Coins'', str (coins s + (if b then 1 else 0)))]),
            \<lparr>coins = coins s + (if b then 1 else 0), inventory = inventory s\<rparr>)"
  using assms by (auto simp add: root_put_dict insert_coin_def)

text \<open>
  Three ways out of \<^verbatim>\<open>_handle_root_put\<close> that send nothing, for every choice of the library
  functions: a decoded body that is neither \<^verbatim>\<open>None\<close> nor a dictionary, a
  \<^verbatim>\<open>Content-Length\<close> on which \<^verbatim>\<open>int\<close> raises, and a length on which \<^verbatim>\<open>read\<close> raises.
\<close>

lemma read_failure_raises:
  assumes "content_length req = Some v" and "py_int v = Some n" and "n \<noteq> 0"
    and "rfile req n = Inl e"
  shows "handle_root_put py_int loads req s = (Raised e, s)"
  using assms by (simp add: handle_root_put_def read_json_body_def)

lemma non_object_body_raises:
  assumes "read_json_body py_int loads req = Inr b" and "b \<noteq> JNull" and "\<forall>items. b \<noteq> JObj items"
  shows "handle_root_put py_int loads req s = (Raised AttributeError, s)"
  using assms by (cases b) (simp_all add: handle_root_put_def)

lemma bad_content_length_raises:
  assumes "content_length req = Some v" and "py_int v = None"
  shows "handle_root_put py_int loads req s = (Raised ValueError, s)"
  using assms by (simp add: handle_root_put_def read_json_body_def)

text \<open>
  C8. The claim is that \<^verbatim>\<open>PUT /\<close> always ends in a response. On a body that decodes to
  an array or a number, \<^verbatim>\<open>body.get\<close> raises \<^verbatim>\<open>AttributeError\<close>; on a \<^verbatim>\<open>Content-Length\<close>
  that is not a number, \<^verbatim>\<open>int\<close> raises \<^verbatim>\<open>ValueError\<close>. Neither is caught, so no
  response is sent. The state is unchanged in all three runs.
\<close>

theorem root_put_raises:
  "handle_root_put int_decimal loads_sample \<lparr>content_length = Some ''3'', rfile = reader ''[1]''\<rparr>
       initial_state = (Raised AttributeError, initial_state)
   \<and> handle_root_put int_decimal loads_sample \<lparr>content_length = Some ''1'', rfile = reader ''7''\<rparr>
       initial_state = (Raised AttributeError, initial_state)
   \<and> handle_root_put int_decimal loads_sample \<lparr>content_length = Some ''abc'', rfile = reader ''{}''\<rparr>
       initial_state = (Raised ValueError, initial_state)"
  by (simp add: handle_root_put_def sample_defs)

text \<open>
  A negative \<^verbatim>\<open>Content-Length\<close> below \<open>-1\<close> is a fourth run of the same kind: \<^verbatim>\<open>int\<close>
  accepts it, the length is not 0, and \<^verbatim>\<open>read\<close> raises \<^verbatim>\<open>ValueError\<close>.
\<close>

lemma negative_length_example:
  "handle_root_put int_decimal loads_sample \<lparr>content_length = Some ''-5'', rfile = reader ''{}''\<rparr>
       initial_state = (Raised ValueError, initial_state)"
  by (simp add: handle_root_put_def sample_defs)

text \<open>
  C10. A \<^verbatim>\<open>PUT /\<close> without a \<^verbatim>\<open>Content-Length\<close> header, or with one that reads as 0,
  is not rejected: the body is taken to be the empty object, the missing \<^verbatim>\<open>coin\<close> counts
  as 0, and the answer is 204 with \<^verbatim>\<open>X-Coins\<close> set to the current balance; the state is
  unchanged.
\<close>

theorem empty_body_accepted:
  assumes "content_length req = None \<or> (\<exists>v. content_length req = Some v \<and> py_int v = Some 0)"
  shows "read_json_body py_int loads req = Inr (JObj [])
         \<and> handle_root_put py_int loads req s =
             (Replied (send_no_content [(''X-Coins'', str (coins s))]), s)"
proof -
  from assms have b: "read_json_body py_int loads req = Inr (JObj [])"
    by (auto simp add: read_json_body_def)
  then show ?thesis
    by (simp add: root_put_dict [OF b] insert_coin_def)
qed

theorem empty_body_accepted_witness:
  "handle_root_put int_decimal loads_sample \<lparr>content_length = None, rfile = reader []\<rparr>
       \<lparr>coins = 1, inventory = [5, 4, 5]\<rparr> =
     (Replied (send_no_content [(''X-Coins'', ''1'')]), \<lparr>coins = 1, inventory = [5, 4, 5]\<rparr>)
   \<and> handle_root_put int_decimal loads_sample \<lparr>content_length = Some ''0'', rfile = reader []\<rparr>
       \<lparr>coins = 1, inventory = [5, 4, 5]\<rparr> =
     (Replied (send_no_content [(''X-Coins'', ''1'')]), \<lparr>coins = 1, inventory = [5, 4, 5]\<rparr>)"
  using empty_body_accepted [of "\<lparr>content_length = None, rfile = reader []\<rparr>" int_decimal loads_sample
      "\<lparr>coins = 1, inventory = [5, 4, 5]\<rparr>"]
    empty_body_accepted [of "\<lparr>content_length = Some ''0'', rfile = reader []\<rparr>" int_decimal loads_sample
      "\<lparr>coins = 1, inventory = [5, 4, 5]\<rparr>"]
  by (simp add: int_decimal_def is_digit_def decimal_value_def digit_value_def
      str_def digits.simps digit_def)

subsection \<open>Item ids in the path\<close>

lemma split_from_no_sep: "sep \<notin> set s \<Longrightarrow> split_from sep piece s = [rev piece @ s]"
  by (induction s arbitrary: piece) auto

lemma split_from_sep:
  "sep \<notin> set a \<Longrightarrow> split_from sep piece (a @ sep # b) = (rev piece @ a) # split_from sep [] b"
  by (induction a arbitrary: piece) auto

lemma parse_path_item:
  assumes "split CHR ''/'' (lstrip CHR ''/'' (raw_path path)) = [''inventory'', seg]"
  shows "parse_path py_int path s =
     (case py_int seg of
        None \<Rightarrow> Inl (send_error_plain 404 [])
      | Some item_id \<Rightarrow>
          if item_id < 0 \<or> int (length (inventory s)) \<le> item_id then
            Inl (send_error_plain 404 [])
          else Inr ([''inventory'', seg], Some item_id))"
proof -
  have "raw_path path \<noteq> ''/''"
    using assms by (auto simp add: lstrip_def split_def)
  with assms show ?thesis
    by (simp add: parse_path_def Let_def)
qed

lemma hd_split_query:
  assumes "CHR ''?'' \<notin> set p" and "q = [] \<or> hd q = CHR ''?''"
  shows "hd (split CHR ''?'' (p @ q)) = p"
proof (cases q)
  case Nil
  with assms show ?thesis by (simp add: split_def split_from_no_sep)
next
  case (Cons c q')
  with assms have "q = CHR ''?'' # q'" by simp
  with assms show ?thesis by (simp add: split_def split_from_sep)
qed

lemma rstrip_slashes:
  assumes "a \<noteq> []" and "last a \<noteq> CHR ''/''" and "set slashes \<subseteq> {CHR ''/''}"
  shows "rstrip CHR ''/'' (a @ slashes) = a"
proof -
  have "dropWhile (\<lambda>x. x = CHR ''/'') (rev slashes @ rev a) = dropWhile (\<lambda>x. x = CHR ''/'') (rev a)"
    using assms(3) by (intro dropWhile_append2) auto
  moreover have "dropWhile (\<lambda>x. x = CHR ''/'') (rev a) = rev a"
    using assms(1,2) by (cases "rev a") (auto simp add: last_rev [symmetric] simp del: last_rev)
  ultimately show ?thesis by (simp add: rstrip_def)
qed

lemma item_path_parts:
  assumes "seg \<noteq> []" and "CHR ''/'' \<notin> set seg" and "CHR ''?'' \<notin> set seg"
    and "set slashes \<subseteq> {CHR ''/''}" and "q = [] \<or> hd q = CHR ''?''"
  shows "split CHR ''/'' (lstrip CHR ''/'' (raw_path (''/inventory/'' @ seg @ slashes @ q)))
           = [''inventory'', seg]"
proof -
  let ?a = "''/inventory/'' @ seg"
  have nq: "CHR ''?'' \<notin> set (?a @ slashes)"
    using assms(3,4) by auto
  have "hd (split CHR ''?'' ((?a @ slashes) @ q)) = ?a @ slashes"
    using nq assms(5) by (rule hd_split_query)
  moreover have "last seg \<noteq> CHR ''/''"
    using assms(1,2) by (metis last_in_set)
  then have "rstrip CHR ''/'' (?a @ slashes) = ?a"
    using assms(1,4) by (intro rstrip_slashes) auto
  ultimately have "raw_path (''/inventory/'' @ seg @ slashes @ q) = ?a"
    by (simp add: raw_path_def)
  moreover have "split CHR ''/'' (lstrip CHR ''/'' ?a) = [''inventory'', seg]"
    using assms(2) split_from_sep [of "CHR ''/''" "''inventory''" "[]" seg]
    by (simp add: lstrip_def split_def split_from_no_sep)
  ultimately show ?thesis by simp
qed

text \<open>
  C9. Take a path whose normal form has the two segments \<^verbatim>\<open>inventory\<close> and \<open>seg\<close>. When
  \<open>seg\<close> does not read as an integer, or reads as one that is negative or not below the
  length of the inventory, \<^verbatim>\<open>_parse_path\<close> sends 404 without headers or body and returns
  no segments, so \<^verbatim>\<open>do_GET\<close> and \<^verbatim>\<open>do_PUT\<close> return before any handler runs, and the
  state is unchanged. \<open>item_path_parts\<close> above shows which request paths have this normal
  form.
\<close>

theorem invalid_item_id_not_found:
  assumes "split CHR ''/'' (lstrip CHR ''/'' (raw_path path)) = [''inventory'', seg]"
    and "py_int seg = None
         \<or> (\<exists>n. py_int seg = Some n \<and> (n < 0 \<or> int (length (inventory s)) \<le> n))"
  shows "parse_path py_int path s = Inl (send_error_plain 404 [])
         \<and> do_GET py_int path s = (Replied (send_error_plain 404 []), s)
         \<and> do_PUT py_int loads path req s = (Replied (send_error_plain 404 []), s)"
proof -
  from assms(2) have "parse_path py_int path s = Inl (send_error_plain 404 [])"
    by (auto simp add: parse_path_item [OF assms(1)])
  then show ?thesis
    by (simp add: do_GET_def do_PUT_def)
qed

theorem invalid_item_id_not_found_witness:
  "do_GET int_decimal ''/inventory/99'' initial_state =
     (Replied (send_error_plain 404 []), initial_state)
   \<and> do_PUT int_decimal loads_sample ''/inventory/abc/?x=1'' \<lparr>content_length = None, rfile = reader []\<rparr>
       initial_state = (Replied (send_error_plain 404 []), initial_state)"
  using invalid_item_id_not_found [of "''/inventory/99''" "''99''" int_decimal initial_state
      loads_sample "\<lparr>content_length = None, rfile = reader []\<rparr>"]
    invalid_item_id_not_found [of "''/inventory/abc/?x=1''" "''abc''" int_decimal initial_state
      loads_sample "\<lparr>content_length = None, rfile = reader []\<rparr>"]
  by (simp add: raw_path_def rstrip_def lstrip_def split_def int_decimal_def is_digit_def
      decimal_value_def digit_value_def initial_state_def)

subsection \<open>The invariant under sequences of operations\<close>

lemma subscript_bound: "subscript xs i = Some k \<Longrightarrow> k < length xs"
  by (auto simp add: subscript_def split: if_splits)

lemma handle_item_put_invariant:
  assumes "invariant s"
  shows "invariant (snd (handle_item_put i s))"
proof (cases "subscript (inventory s) i")
  case None
  with assms show ?thesis by (simp add: handle_item_put_def)
next
  case (Some k)
  then have k: "k < length (inventory s)" by (rule subscript_bound)
  with assms have q: "0 \<le> inventory s ! k"
    by (simp add: invariant_def list_all_length)
  from assms have all: "\<forall>n<length (inventory s). 0 \<le> inventory s ! n"
    by (simp add: invariant_def list_all_length)
  show ?thesis
  proof (cases "inventory s ! k = 0 \<or> coins s < ITEM_PRICE")
    case True
    with Some assms show ?thesis by (auto simp add: handle_item_put_def Let_def)
  next
    case False
    with q have "0 \<le> inventory s ! k - 1" and "0 \<le> coins s - ITEM_PRICE"
      by (auto simp add: ITEM_PRICE_def)
    with False Some all k show ?thesis
      by (auto simp add: handle_item_put_def Let_def invariant_def list_all_length nth_list_update)
  qed
qed

lemma apply_operation_invariant:
  assumes "accepted x" and "invariant s"
  shows "invariant (apply_operation x s)"
proof (cases x)
  case (InsertCoin amount)
  with assms show ?thesis
    by (auto simp add: insert_coin_def invariant_def)
next
  case CancelTransaction
  with assms show ?thesis by (simp add: handle_root_delete_def invariant_def)
next
  case GetInventorySnapshot
  with assms show ?thesis by (simp add: handle_inventory_get_def)
next
  case (GetItemQuantity i)
  with assms show ?thesis by (simp add: handle_item_get_def split: option.splits)
next
  case (PurchaseItem i)
  with assms show ?thesis by (simp add: handle_item_put_invariant)
qed

lemma run_invariant:
  "list_all accepted xs \<Longrightarrow> invariant s \<Longrightarrow> invariant (run xs s)"
  by (induction xs arbitrary: s) (auto simp add: apply_operation_invariant)

lemma invariant_initial: "invariant initial_state"
  by (simp add: invariant_def initial_state_def)

text \<open>
  C4. Start from the initial state (no coins, five of each of three items) and run any
  finite sequence of the five operations in which every \<open>InsertCoin\<close> carries 0 or 1.
  After each operation, that is after every prefix of the sequence, the balance is not
  negative and no inventory entry is negative.
\<close>

theorem invariant_after_each_operation:
  assumes "list_all accepted ops" and "k \<le> length ops"
  shows "invariant (run (take k ops) initial_state)"
proof -
  from assms(1) have "list_all accepted (take k ops)"
    by (auto simp add: list_all_iff dest: in_set_takeD)
  then show ?thesis
    by (rule run_invariant) (rule invariant_initial)
qed

theorem invariant_after_each_operation_witness:
  "invariant (run (take 3 [InsertCoin 1, InsertCoin 1, PurchaseItem 0, CancelTransaction,
       GetItemQuantity 0, GetInventorySnapshot, PurchaseItem 0]) initial_state)
   \<and> run (take 3 [InsertCoin 1, InsertCoin 1, PurchaseItem 0, CancelTransaction,
       GetItemQuantity 0, GetInventorySnapshot, PurchaseItem 0]) initial_state
     = \<lparr>coins = 0, inventory = [4, 5, 5]\<rparr>"
  using invariant_after_each_operation [of "[InsertCoin 1, InsertCoin 1, PurchaseItem 0,
      CancelTransaction, GetItemQuantity 0, GetInventorySnapshot, PurchaseItem 0]" 3]
  by (simp add: initial_state_def insert_coin_def handle_item_put_def subscript_def
      ITEM_PRICE_def Let_def)

subsection \<open>The invariant under arbitrary requests\<close>

text \<open>
  The same invariant survives every request the dispatch methods can be given, whatever
  the path, the headers and the body are, as long as it ends in a response or an
  exception: validation keeps every integer that reaches the balance at 0 or 1, and a
  request that raises or is rejected leaves the state alone. A \<^verbatim>\<open>PUT /\<close> with a float coin
  equal to 0 or 1 ends in \<open>Float_sum\<close> and is excluded.
\<close>

lemma accepted_coin_value:
  assumes "py_eq_int coin 0 \<or> py_eq_int coin 1"
  shows "py_add_int c coin = Inr (Int_total c) \<or> py_add_int c coin = Inr (Int_total (c + 1))
         \<or> (\<exists>f. py_add_int c coin = Inr (Float_total c f))"
  using assms by (cases coin) (auto split: if_splits)

lemma handle_root_put_invariant:
  assumes "invariant s" and "\<forall>c f. fst (handle_root_put py_int loads req s) \<noteq> Float_sum c f"
  shows "invariant (snd (handle_root_put py_int loads req s))"
proof (cases "read_json_body py_int loads req")
  case (Inl e)
  with assms(1) show ?thesis by (simp add: handle_root_put_def)
next
  case (Inr b)
  show ?thesis
  proof (cases "py_get b ''coin'' (JInt 0)")
    case (Inl e)
    with Inr assms(1) show ?thesis by (simp add: handle_root_put_def)
  next
    case get: (Inr coin)
    show ?thesis
    proof (cases "py_eq_int coin 0 \<or> py_eq_int coin 1")
      case False
      with Inr get assms(1) show ?thesis by (simp add: handle_root_put_def)
    next
      case True
      from accepted_coin_value [OF True, of "coins s"] Inr get True assms(1) show ?thesis
        by (auto simp add: handle_root_put_def insert_coin_def invariant_def)
    qed
  qed
qed

lemma do_PUT_invariant:
  assumes "invariant s" and "\<forall>c f. fst (do_PUT py_int loads path req s) \<noteq> Float_sum c f"
  shows "invariant (snd (do_PUT py_int loads path req s))"
proof (cases "parse_path py_int path s")
  case (Inl r)
  with assms(1) show ?thesis by (simp add: do_PUT_def)
next
  case (Inr p)
  show ?thesis
  proof (cases "fst p = [[]]")
    case True
    with Inr assms show ?thesis
      by (cases p) (simp add: do_PUT_def handle_root_put_invariant)
  next
    case False
    with Inr assms(1) show ?thesis
      by (cases p) (simp add: do_PUT_def handle_item_put_invariant)
  qed
qed

lemma do_GET_invariant:
  assumes "invariant s"
  shows "invariant (snd (do_GET py_int path s))"
  using assms
  by (auto simp add: do_GET_def handle_inventory_get_def handle_item_get_def
      split: sum.splits prod.splits option.splits)

lemma do_DELETE_invariant:
  assumes "invariant s"
  shows "invariant (snd (do_DELETE py_int path s))"
  using assms
  by (auto simp add: do_DELETE_def handle_root_delete_def invariant_def
      split: sum.splits prod.splits)

end
